theory Spec2Isabelle
  imports Main
begin

section \<open>Data model\<close>

text \<open>
  The plugin lives in \<^verbatim>\<open>src/src/index.ts\<close>; a second, near-identical
  implementation is \<^verbatim>\<open>src/unnamed/part_000\<close>. Definitions without a suffix
  embed \<^verbatim>\<open>index.ts\<close>; the ones that differ in \<^verbatim>\<open>part_000\<close> carry the
  suffix \<open>_alt\<close>.
\<close>

subsection \<open>Syntax trees\<close>

text \<open>
  \<^verbatim>\<open>ts.Node\<close>, restricted to what \<^verbatim>\<open>walk\<close> and \<^verbatim>\<open>shouldStrip\<close> inspect.
  The node kinds the code tests for, and the two it creates, are constructors of their
  own; every other syntax kind is an \<open>OtherNode\<close> with its kind, its own text and its
  children in source order.
\<close>

datatype node =
    Identifier string
  | PropertyAccessExpression node node
  | CallExpression node "node list"
  | DebuggerStatement
  | EmptyStatement
  | VoidExpression node
  | NumericLiteral string
  | SourceFile string "node list"
  | OtherNode string string "node list"

fun isCallExpression :: "node \<Rightarrow> bool" where
  "isCallExpression (CallExpression e args) = True"
| "isCallExpression _ = False"

fun isPropertyAccessExpression :: "node \<Rightarrow> bool" where
  "isPropertyAccessExpression (PropertyAccessExpression e n) = True"
| "isPropertyAccessExpression _ = False"

fun isIdentifier :: "node \<Rightarrow> bool" where
  "isIdentifier (Identifier t) = True"
| "isIdentifier _ = False"

fun isDebuggerStatement :: "node \<Rightarrow> bool" where
  "isDebuggerStatement DebuggerStatement = True"
| "isDebuggerStatement _ = False"

text \<open>\<^verbatim>\<open>source.fileName\<close>; the parser only ever hands a source file to the transformer.\<close>

fun fileName :: "node \<Rightarrow> string" where
  "fileName (SourceFile f stmts) = f"
| "fileName _ = []"

text \<open>\<^verbatim>\<open>ctx.factory.createVoidZero()\<close> builds the expression \<^verbatim>\<open>void 0\<close>.\<close>

definition createVoidZero :: node where
  "createVoidZero = VoidExpression (NumericLiteral ''0'')"

definition createEmptyStatement :: node where
  "createEmptyStatement = EmptyStatement"

subsection \<open>Errors, JSON values, configuration\<close>

datatype exn = ENOENT string | TypeError string | SyntaxError string | Thrown string

datatype json =
    JUndefined
  | JNull
  | JBool bool
  | JNumber int
  | JString string
  | JArray "json list"
  | JObject "(string \<times> json) list"

text \<open>
  \<^verbatim>\<open>v.k\<close> on a JavaScript value: reading a property of \<^verbatim>\<open>undefined\<close> or
  \<^verbatim>\<open>null\<close> throws a TypeError, a missing property reads as \<^verbatim>\<open>undefined\<close>.
\<close>

fun get_property :: "json \<Rightarrow> string \<Rightarrow> exn + json" where
  "get_property JUndefined k = Inl (TypeError k)"
| "get_property JNull k = Inl (TypeError k)"
| "get_property (JObject kvs) k = Inr (case map_of kvs k of None \<Rightarrow> JUndefined | Some v \<Rightarrow> v)"
| "get_property _ k = Inr JUndefined"

text \<open>
  \<^verbatim>\<open>ts.CompilerOptions\<close>: only \<^verbatim>\<open>target\<close> is read by the plugin (a
  \<^verbatim>\<open>ts.ScriptTarget\<close> number, \<open>None\<close> when the option is absent).
\<close>

record CompilerOptions =
  target :: "nat option"
  others :: "(string \<times> json) list"

definition ES2015 :: nat where
  "ES2015 = 2"

text \<open>
  \<^verbatim>\<open>config.compilerOptions.target || ts.ScriptTarget.ES2015\<close>: an absent target and the
  falsy target \<open>0\<close> both give ES2015.
\<close>

fun target_or_ES2015 :: "nat option \<Rightarrow> nat" where
  "target_or_ES2015 None = ES2015"
| "target_or_ES2015 (Some t) = (if t = 0 then ES2015 else t)"

text \<open>\<^verbatim>\<open>FilterPattern = ReadonlyArray<string> | string | null\<close>.\<close>

datatype FilterPattern = PNull | PString string | PList "string list"

text \<open>
  The user's \<^verbatim>\<open>Config\<close>. Every field is optional: \<open>None\<close> is an absent field
  (\<^verbatim>\<open>undefined\<close>). The fields carry the prefix \<open>c_\<close> because \<^verbatim>\<open>StripConfig\<close> and
  the module variable \<^verbatim>\<open>verbose\<close> use the same names; the field
  \<^verbatim>\<open>functions\<close> of \<^verbatim>\<open>StripConfig\<close> is \<open>functions'\<close>, the plain word being a keyword of Isabelle. The type of
  \<^verbatim>\<open>functions\<close> is \<^verbatim>\<open>string[]\<close> in \<^verbatim>\<open>index.ts\<close> and
  \<^verbatim>\<open>FilterPattern\<close> in \<^verbatim>\<open>part_000\<close>, hence the parameter.
\<close>

record 'f Config =
  c_include :: "FilterPattern option"
  c_exclude :: "FilterPattern option"
  c_debugger :: "bool option"
  c_functions :: "'f option"
  c_tsconfigPath :: "string option"
  c_verbose :: "bool option"

record 'f StripConfig =
  functions' :: 'f
  stripDebugger :: bool
  compilerOptions :: CompilerOptions

subsection \<open>Process state and observable effects\<close>

text \<open>
  The module variable \<^verbatim>\<open>verbose\<close> and what the code does to the outside, in order:
  lines written by \<^verbatim>\<open>console.log\<close>, files read, source texts handed to the parser.
\<close>

datatype effect = ConsoleLog string "string list" | ReadFile string | Parse string

record Proc =
  verbose :: bool
  trace :: "effect list"

definition emit :: "effect \<Rightarrow> Proc \<Rightarrow> Proc" where
  "emit e w = w\<lparr>trace := trace w @ [e]\<rparr>"

text \<open>\<^verbatim>\<open>debug(msg, ...args)\<close>.\<close>

definition debug :: "string \<Rightarrow> string list \<Rightarrow> Proc \<Rightarrow> Proc" where
  "debug msg args w =
     (if verbose w then emit (ConsoleLog (''bun-plugin-strip: '' @ msg) args) w else w)"

subsection \<open>Collaborators\<close>

text \<open>
  Code the plugin calls and the repository does not contain: the \<^verbatim>\<open>minimatch\<close>
  library, the TypeScript compiler API, \<^verbatim>\<open>node:fs\<close>, \<^verbatim>\<open>node:path\<close> and
  \<^verbatim>\<open>Bun.file\<close>. They are parameters of the model. A regular expression is
  represented by its \<^verbatim>\<open>test\<close> predicate; \<^verbatim>\<open>minimatch.makeRe\<close> returns
  \<^verbatim>\<open>false\<close> for some patterns, which is \<open>None\<close>. \<open>printNode\<close> is
  \<^verbatim>\<open>ts.createPrinter(...).printNode(hint, node, sourceFile)\<close>; its last argument only
  supplies the text of the nodes, which the nodes of the model carry themselves.
  \<open>fileText\<close> is \<^verbatim>\<open>await Bun.file(path).text()\<close>, and \<open>defaultTsconfigPath\<close>
  is \<^verbatim>\<open>resolve(process.cwd(), "./tsconfig.json")\<close>. The parser, the printer and
  the file read of the load hook are taken to return (the code does not handle their
  failure); the collaborators of \<^verbatim>\<open>getCompilerOptions\<close>, which sit in a
  \<^verbatim>\<open>try\<close> block, may throw.
\<close>

type_synonym RegExp = "string \<Rightarrow> bool"

record Ext =
  minimatch :: "string \<Rightarrow> string \<Rightarrow> bool"
  makeRe :: "string \<Rightarrow> RegExp option"
  createSourceFile :: "string \<Rightarrow> string \<Rightarrow> nat \<Rightarrow> node"
  printNode :: "node \<Rightarrow> string"
  basename :: "string \<Rightarrow> string"
  readFileSync :: "string \<Rightarrow> exn + string"
  parseConfigFileTextToJson :: "string \<Rightarrow> exn + json"
  convertCompilerOptionsFromJson :: "json \<Rightarrow> exn + CompilerOptions"
  getDefaultCompilerOptions :: CompilerOptions
  fileText :: "string \<Rightarrow> string"
  defaultTsconfigPath :: string

section \<open>The function-name matcher\<close>

text \<open>
  \<^verbatim>\<open>shouldStrip\<close> of \<^verbatim>\<open>index.ts\<close>. The loop over \<^verbatim>\<open>config.functions\<close>
  ends with an unconditional \<^verbatim>\<open>break\<close>: its body runs for the first pattern only.
\<close>

fun match_loop :: "Ext \<Rightarrow> string \<Rightarrow> string list \<Rightarrow> bool" where
  "match_loop ext fullName [] = False"
| "match_loop ext fullName (p # ps) = (if minimatch ext fullName p then True else False)"

fun shouldStrip :: "Ext \<Rightarrow> (string list) StripConfig \<Rightarrow> node \<Rightarrow> bool" where
  "shouldStrip ext config (PropertyAccessExpression (Identifier baseName) (Identifier methodName)) =
     match_loop ext (baseName @ ''.'' @ methodName) (functions' config)"
| "shouldStrip ext config _ = False"

text \<open>
  \<^verbatim>\<open>shouldStrip\<close> of \<^verbatim>\<open>part_000\<close>: a \<^verbatim>\<open>null\<close> list strips nothing, and the
  loop over \<^verbatim>\<open>[...config.functions]\<close> has no \<^verbatim>\<open>break\<close>. Spreading a string gives
  its characters, each a pattern of its own.
\<close>

fun match_loop_alt :: "Ext \<Rightarrow> string \<Rightarrow> string list \<Rightarrow> bool" where
  "match_loop_alt ext fullName [] = False"
| "match_loop_alt ext fullName (p # ps) =
     (if minimatch ext fullName p then True else match_loop_alt ext fullName ps)"

fun spread :: "FilterPattern \<Rightarrow> string list" where
  "spread (PList ps) = ps"
| "spread (PString s) = map (\<lambda>c. [c]) s"
| "spread PNull = []"

fun shouldStrip_alt :: "Ext \<Rightarrow> FilterPattern StripConfig \<Rightarrow> node \<Rightarrow> bool" where
  "shouldStrip_alt ext config (PropertyAccessExpression (Identifier baseName) (Identifier methodName)) =
     (if functions' config = PNull then False
      else match_loop_alt ext (baseName @ ''.'' @ methodName) (spread (functions' config)))"
| "shouldStrip_alt ext config _ = False"

text \<open>
  The contract of the specification, section 4.1: \<open>matchesAny candidate patterns\<close> is
  true iff the candidate matches at least one pattern of the list.
\<close>

definition matchesAny :: "Ext \<Rightarrow> string \<Rightarrow> string list \<Rightarrow> bool" where
  "matchesAny ext candidate patterns = list_ex (minimatch ext candidate) patterns"

section \<open>The tree rewriter\<close>

text \<open>
  \<^verbatim>\<open>walk\<close> inside \<^verbatim>\<open>makeTransformer\<close>, the same text in both files. It closes
  over the configuration, the source file and the local variable
  \<^verbatim>\<open>needed_to_strip\<close>; here \<open>strip\<close> is the file's \<^verbatim>\<open>shouldStrip\<close> applied
  to the configuration, \<open>dbg\<close> is \<^verbatim>\<open>config.stripDebugger\<close>, \<open>fn\<close> is
  \<^verbatim>\<open>source.fileName\<close>, and the state is \<^verbatim>\<open>needed_to_strip\<close> with the process
  state. \<^verbatim>\<open>ts.visitEachChild(node, walk, ctx)\<close> rebuilds a node of the same kind
  from its visited children, left to right; the parentheses the TypeScript factory
  may put around a replaced child are not part of the model.
\<close>

fun walk :: "(node \<Rightarrow> bool) \<Rightarrow> bool \<Rightarrow> string \<Rightarrow> node \<Rightarrow> bool \<times> Proc \<Rightarrow> node \<times> bool \<times> Proc"
  and visitNodes :: "(node \<Rightarrow> bool) \<Rightarrow> bool \<Rightarrow> string \<Rightarrow> node list \<Rightarrow> bool \<times> Proc \<Rightarrow> node list \<times> bool \<times> Proc"
where
  "walk strip dbg fn (CallExpression expr args) st =
     (if isPropertyAccessExpression expr \<and> strip expr then
        (createVoidZero,
         if \<not> fst st then (True, debug ''stripping file'' [fn] (snd st)) else st)
      else
        (case walk strip dbg fn expr st of (expr', st1) \<Rightarrow>
           (case visitNodes strip dbg fn args st1 of (args', st2) \<Rightarrow>
              (CallExpression expr' args', st2))))"
| "walk strip dbg fn DebuggerStatement st =
     (if dbg then (createEmptyStatement, (fst st, debug ''stripping debugger'' [fn] (snd st)))
      else (DebuggerStatement, st))"
| "walk strip dbg fn (Identifier t) st = (Identifier t, st)"
| "walk strip dbg fn (PropertyAccessExpression e n) st =
     (case walk strip dbg fn e st of (e', st1) \<Rightarrow>
        (case walk strip dbg fn n st1 of (n', st2) \<Rightarrow>
           (PropertyAccessExpression e' n', st2)))"
| "walk strip dbg fn EmptyStatement st = (EmptyStatement, st)"
| "walk strip dbg fn (VoidExpression e) st =
     (case walk strip dbg fn e st of (e', st1) \<Rightarrow> (VoidExpression e', st1))"
| "walk strip dbg fn (NumericLiteral t) st = (NumericLiteral t, st)"
| "walk strip dbg fn (SourceFile f stmts) st =
     (case visitNodes strip dbg fn stmts st of (stmts', st1) \<Rightarrow> (SourceFile f stmts', st1))"
| "walk strip dbg fn (OtherNode k t cs) st =
     (case visitNodes strip dbg fn cs st of (cs', st1) \<Rightarrow> (OtherNode k t cs', st1))"
| "visitNodes strip dbg fn [] st = ([], st)"
| "visitNodes strip dbg fn (c # cs) st =
     (case walk strip dbg fn c st of (c', st1) \<Rightarrow>
        (case visitNodes strip dbg fn cs st1 of (cs', st2) \<Rightarrow> (c' # cs', st2)))"

text \<open>
  \<^verbatim>\<open>makeTransformer(config)(ctx)(source)\<close>: \<^verbatim>\<open>ts.visitNode(source, walk)\<close> with
  \<^verbatim>\<open>needed_to_strip\<close> initially false.
\<close>

definition makeTransformer :: "Ext \<Rightarrow> (string list) StripConfig \<Rightarrow> node \<Rightarrow> Proc \<Rightarrow> node \<times> Proc" where
  "makeTransformer ext config source w =
     (case walk (shouldStrip ext config) (stripDebugger config) (fileName source) source (False, w) of
        (transformed, needed_to_strip, w') \<Rightarrow> (transformed, w'))"

definition makeTransformer_alt :: "Ext \<Rightarrow> FilterPattern StripConfig \<Rightarrow> node \<Rightarrow> Proc \<Rightarrow> node \<times> Proc" where
  "makeTransformer_alt ext config source w =
     (case walk (shouldStrip_alt ext config) (stripDebugger config) (fileName source) source (False, w) of
        (transformed, needed_to_strip, w') \<Rightarrow> (transformed, w'))"

text \<open>
  \<^verbatim>\<open>stripFunctions(config, path, source)\<close>: parse, transform, print. The parser and
  the printer are collaborators; the call of the parser is recorded in the trace.
\<close>

definition stripFunctions :: "Ext \<Rightarrow> (string list) StripConfig \<Rightarrow> string \<Rightarrow> string \<Rightarrow> Proc \<Rightarrow> string \<times> Proc" where
  "stripFunctions ext config path source w =
     (let sourceFile = createSourceFile ext (basename ext path) source
                         (target_or_ES2015 (target (compilerOptions config)));
          w1 = emit (Parse (basename ext path)) w
      in case makeTransformer ext config sourceFile w1 of
           (transformed, w2) \<Rightarrow> (printNode ext transformed, w2))"

definition stripFunctions_alt :: "Ext \<Rightarrow> FilterPattern StripConfig \<Rightarrow> string \<Rightarrow> string \<Rightarrow> Proc \<Rightarrow> string \<times> Proc" where
  "stripFunctions_alt ext config path source w =
     (let sourceFile = createSourceFile ext (basename ext path) source
                         (target_or_ES2015 (target (compilerOptions config)));
          w1 = emit (Parse (basename ext path)) w
      in case makeTransformer_alt ext config sourceFile w1 of
           (transformed, w2) \<Rightarrow> (printNode ext transformed, w2))"

section \<open>File filter\<close>

text \<open>
  \<^verbatim>\<open>makeRegex\<close> of \<^verbatim>\<open>index.ts\<close>. \<^verbatim>\<open>[pattern ?? def].flat()\<close> is the list
  of patterns; each is compiled by \<^verbatim>\<open>minimatch.makeRe\<close> and its \<^verbatim>\<open>source\<close>
  is put in parentheses. Where \<^verbatim>\<open>makeRe\<close> returns \<^verbatim>\<open>false\<close>, the
  \<^verbatim>\<open>source\<close> read from it is \<^verbatim>\<open>undefined\<close> and the group is the literal text
  \<^verbatim>\<open>(undefined)\<close>. The groups are joined with \<^verbatim>\<open>|\<close>: the regular expression
  tests true where one of the groups does, and the empty join is the empty regular
  expression, which tests true on every string.
\<close>

fun pattern_list :: "FilterPattern \<Rightarrow> string \<Rightarrow> string list" where
  "pattern_list PNull def = [def]"
| "pattern_list (PString s) def = [s]"
| "pattern_list (PList ps) def = ps"

fun starts_with :: "string \<Rightarrow> string \<Rightarrow> bool" where
  "starts_with [] s = True"
| "starts_with (c # cs) [] = False"
| "starts_with (c # cs) (d # ds) = (c = d \<and> starts_with cs ds)"

fun contains :: "string \<Rightarrow> string \<Rightarrow> bool" where
  "contains u [] = (u = [])"
| "contains u (d # ds) = (if starts_with u (d # ds) then True else contains u ds)"

definition source_test :: "RegExp option \<Rightarrow> RegExp" where
  "source_test re = (case re of Some r \<Rightarrow> r | None \<Rightarrow> contains ''undefined'')"

definition join_alternatives :: "RegExp list \<Rightarrow> RegExp" where
  "join_alternatives res = (\<lambda>s. if res = [] then True else list_ex (\<lambda>r. r s) res)"

definition makeRegex :: "Ext \<Rightarrow> FilterPattern \<Rightarrow> bool \<Rightarrow> RegExp" where
  "makeRegex ext pattern nullMatchesAll =
     (let def = (if nullMatchesAll then ''*'' else []);
          patterns = map (\<lambda>x. source_test (makeRe ext x)) (pattern_list pattern def)
      in join_alternatives patterns)"

definition makeFileFilter :: "Ext \<Rightarrow> FilterPattern \<Rightarrow> FilterPattern \<Rightarrow> RegExp \<times> RegExp" where
  "makeFileFilter ext include exclude = (makeRegex ext include True, makeRegex ext exclude False)"

section \<open>Configuration resolver\<close>

text \<open>
  \<^verbatim>\<open>getCompilerOptions\<close>: the body of the \<^verbatim>\<open>try\<close> block, in which every step
  may throw, and the \<^verbatim>\<open>catch\<close> that returns the default options.
  \<open>parseConfigFileTextToJson\<close> gives the object \<^verbatim>\<open>result\<close>, and
  \<open>convertCompilerOptionsFromJson\<close> the \<^verbatim>\<open>options\<close> of its result.
\<close>

definition getCompilerOptions_try :: "Ext \<Rightarrow> string \<Rightarrow> exn + CompilerOptions" where
  "getCompilerOptions_try ext sourcePath =
     (case readFileSync ext sourcePath of
        Inl e \<Rightarrow> Inl e
      | Inr content \<Rightarrow>
          (case parseConfigFileTextToJson ext content of
             Inl e \<Rightarrow> Inl e
           | Inr result \<Rightarrow>
               (case get_property result ''config'' of
                  Inl e \<Rightarrow> Inl e
                | Inr config \<Rightarrow>
                    (case get_property config ''compilerOptions'' of
                       Inl e \<Rightarrow> Inl e
                     | Inr opts \<Rightarrow> convertCompilerOptionsFromJson ext opts))))"

definition getCompilerOptions :: "Ext \<Rightarrow> string \<Rightarrow> exn + CompilerOptions" where
  "getCompilerOptions ext sourcePath =
     (case getCompilerOptions_try ext sourcePath of
        Inl err \<Rightarrow> Inr (getDefaultCompilerOptions ext)
      | Inr options \<Rightarrow> Inr options)"

text \<open>\<^verbatim>\<open>a ?? b\<close> on an optional \<^verbatim>\<open>FilterPattern\<close>: absent and \<^verbatim>\<open>null\<close> give \<open>b\<close>.\<close>

fun nullish :: "FilterPattern option \<Rightarrow> FilterPattern \<Rightarrow> FilterPattern" where
  "nullish None b = b"
| "nullish (Some PNull) b = b"
| "nullish (Some a) b = a"

fun or_default :: "'a option \<Rightarrow> 'a \<Rightarrow> 'a" where
  "or_default None b = b"
| "or_default (Some a) b = a"

section \<open>Orchestrator\<close>

datatype OnLoadResult = Contents string | Undefined

text \<open>
  What \<^verbatim>\<open>setup\<close> registers with \<^verbatim>\<open>build.onLoad({ filter }, callback)\<close>.
\<close>

record BunPlugin =
  name :: string
  onLoad_filter :: RegExp
  onLoad_callback :: "string \<Rightarrow> Proc \<Rightarrow> OnLoadResult \<times> Proc"

text \<open>The load callback of \<^verbatim>\<open>index.ts\<close>, with the constants it closes over.\<close>

definition callback :: "Ext \<Rightarrow> RegExp \<Rightarrow> (string list) StripConfig \<Rightarrow> string \<Rightarrow> Proc \<Rightarrow> OnLoadResult \<times> Proc" where
  "callback ext exclude config path w =
     (let contents = fileText ext path;
          w1 = emit (ReadFile path) w
      in if exclude path then (Contents contents, debug ''file is excluded:'' [path] w1)
         else (case stripFunctions ext config path contents w1 of
                 (out, w2) \<Rightarrow> (Contents out, w2)))"

definition Strip :: "Ext \<Rightarrow> (string list) Config \<Rightarrow> Proc \<Rightarrow> (exn + BunPlugin) \<times> Proc" where
  "Strip ext config w =
     (case makeFileFilter ext (nullish (c_include config) PNull)
             (nullish (c_exclude config) (PList [''*node_modules*''])) of
        (include, exclude) \<Rightarrow>
          (let fs = or_default (c_functions config) [''console.*'', ''assert.*''];
               stripDebugger' = or_default (c_debugger config) True;
               tsconfigPath = or_default (c_tsconfigPath config) (defaultTsconfigPath ext)
           in case getCompilerOptions ext tsconfigPath of
                Inl e \<Rightarrow> (Inl e, w)
              | Inr compilerOptions' \<Rightarrow>
                  (let nothingToStrip = (length fs = 0 \<and> \<not> stripDebugger');
                       w1 = w\<lparr>verbose := or_default (c_verbose config) (verbose w)\<rparr>;
                       w2 = debug ''functions:'' fs w1;
                       w3 = debug ''file include pattern:'' [''[RegExp]''] w2;
                       w4 = debug ''file exclude pattern:'' [''[RegExp]''] w3;
                       w5 = (if nothingToStrip
                             then debug ''no functions specified which should be stripped'' [] w4
                             else w4)
                   in (Inr \<lparr>name = ''strip-debug'',
                             onLoad_filter = include,
                             onLoad_callback =
                               (if nothingToStrip then (\<lambda>path w'. (Undefined, w'))
                                else callback ext exclude
                                       \<lparr>functions' = fs, stripDebugger = stripDebugger',
                                        compilerOptions = compilerOptions'\<rparr>)\<rparr>,
                       w5))))"

text \<open>
  \<^verbatim>\<open>Strip\<close> of \<^verbatim>\<open>part_000\<close>. The patterns are spread into arrays, the exclude
  test calls \<^verbatim>\<open>minimatch\<close> per pattern, and the include sources are joined without
  parentheses, by \<^verbatim>\<open>Array.join\<close>. Where \<^verbatim>\<open>makeRe\<close> returns \<^verbatim>\<open>false\<close> the
  \<^verbatim>\<open>source\<close> read from it is \<^verbatim>\<open>undefined\<close>, which \<^verbatim>\<open>join\<close> writes as the
  empty string: that alternative is empty and tests true on every string.
  \<^verbatim>\<open>functions.length\<close> is the length of the array or of the string;
  after \<^verbatim>\<open>??\<close> with a list as default, \<open>functions\<close> is never \<^verbatim>\<open>null\<close>.
\<close>

definition source_test_alt :: "RegExp option \<Rightarrow> RegExp" where
  "source_test_alt re = (case re of Some r \<Rightarrow> r | None \<Rightarrow> (\<lambda>s. True))"

fun pattern_length :: "FilterPattern \<Rightarrow> nat" where
  "pattern_length (PList ps) = length ps"
| "pattern_length (PString s) = length s"
| "pattern_length PNull = 0"

definition callback_alt :: "Ext \<Rightarrow> string list \<Rightarrow> FilterPattern StripConfig \<Rightarrow> string \<Rightarrow> Proc \<Rightarrow> OnLoadResult \<times> Proc" where
  "callback_alt ext exclude config path w =
     (let contents = fileText ext path;
          w1 = emit (ReadFile path) w
      in if list_ex (\<lambda>pattern. minimatch ext path pattern) exclude then (Contents contents, w1)
         else (case stripFunctions_alt ext config path contents w1 of
                 (out, w2) \<Rightarrow> (Contents out, w2)))"

definition Strip_alt :: "Ext \<Rightarrow> FilterPattern Config \<Rightarrow> Proc \<Rightarrow> (exn + BunPlugin) \<times> Proc" where
  "Strip_alt ext config w =
     (let include = spread (nullish (c_include config) (PList [''**'']));
          exclude = spread (nullish (c_exclude config) (PList [''**node_modules**'']));
          fs = nullish (c_functions config) (PList [''console.*'', ''assert.*'']);
          stripDebugger' = or_default (c_debugger config) True;
          tsconfigPath = or_default (c_tsconfigPath config) (defaultTsconfigPath ext)
      in case getCompilerOptions ext tsconfigPath of
           Inl e \<Rightarrow> (Inl e, w)
         | Inr compilerOptions' \<Rightarrow>
             (let nothingToStrip = (pattern_length fs = 0 \<and> \<not> stripDebugger');
                  w1 = w\<lparr>verbose := or_default (c_verbose config) (verbose w)\<rparr>;
                  w2 = debug ''functions:'' (spread fs) w1;
                  w3 = debug ''file include patterns:'' include w2;
                  w4 = debug ''file exclude patterns:'' exclude w3;
                  w5 = (if nothingToStrip
                        then debug ''no functions specified which should be stripped'' [] w4
                        else w4)
              in (Inr \<lparr>name = ''strip-debug'',
                        onLoad_filter = join_alternatives (map (\<lambda>pattern. source_test_alt (makeRe ext pattern)) include),
                        onLoad_callback =
                          (if nothingToStrip then (\<lambda>path w'. (Undefined, w'))
                           else callback_alt ext exclude
                                  \<lparr>functions' = fs, stripDebugger = stripDebugger',
                                   compilerOptions = compilerOptions'\<rparr>)\<rparr>,
                  w5)))"

text \<open>
  The host build tool calls the registered callback for the paths on which the filter
  tests true; any other file is loaded without the plugin.
\<close>

definition run_onLoad :: "BunPlugin \<Rightarrow> string \<Rightarrow> Proc \<Rightarrow> OnLoadResult \<times> Proc" where
  "run_onLoad plugin path w =
     (if onLoad_filter plugin path then onLoad_callback plugin path w else (Undefined, w))"

text \<open>How many source texts the process has handed to the parser so far.\<close>

fun is_Parse :: "effect \<Rightarrow> bool" where
  "is_Parse (Parse f) = True"
| "is_Parse _ = False"

definition parses :: "Proc \<Rightarrow> nat" where
  "parses w = length (filter is_Parse (trace w))"

section \<open>Properties of a tree named by the specification\<close>

text \<open>
  The dotted name of a callee of the shape \<^verbatim>\<open>identifier.identifier\<close>, the only shape
  the specification (section 4.4) lets the rewriter strip.
\<close>

fun two_segment_name :: "node \<Rightarrow> string option" where
  "two_segment_name (PropertyAccessExpression (Identifier a) (Identifier b)) = Some (a @ ''.'' @ b)"
| "two_segment_name _ = None"

text \<open>
  Whether a tree contains a call whose two-segment dotted callee matches one of the
  patterns (with the match-any contract), and whether it contains a debugger statement.
\<close>

fun has_matching_call :: "Ext \<Rightarrow> string list \<Rightarrow> node \<Rightarrow> bool" where
  "has_matching_call ext ps (CallExpression expr args) =
     ((case two_segment_name expr of Some n \<Rightarrow> matchesAny ext n ps | None \<Rightarrow> False)
      \<or> has_matching_call ext ps expr \<or> list_ex (has_matching_call ext ps) args)"
| "has_matching_call ext ps (PropertyAccessExpression e n) =
     (has_matching_call ext ps e \<or> has_matching_call ext ps n)"
| "has_matching_call ext ps (VoidExpression e) = has_matching_call ext ps e"
| "has_matching_call ext ps (SourceFile f stmts) = list_ex (has_matching_call ext ps) stmts"
| "has_matching_call ext ps (OtherNode k t cs) = list_ex (has_matching_call ext ps) cs"
| "has_matching_call ext ps _ = False"

text \<open>Whether a tree contains a call whose callee has the shape \<^verbatim>\<open>identifier.identifier\<close>.\<close>

fun has_two_segment_call :: "node \<Rightarrow> bool" where
  "has_two_segment_call (CallExpression expr args) =
     (two_segment_name expr \<noteq> None \<or> has_two_segment_call expr \<or> list_ex has_two_segment_call args)"
| "has_two_segment_call (PropertyAccessExpression e n) =
     (has_two_segment_call e \<or> has_two_segment_call n)"
| "has_two_segment_call (VoidExpression e) = has_two_segment_call e"
| "has_two_segment_call (SourceFile f stmts) = list_ex has_two_segment_call stmts"
| "has_two_segment_call (OtherNode k t cs) = list_ex has_two_segment_call cs"
| "has_two_segment_call _ = False"

text \<open>
  The rewriter as the specification words it (section 4.4), with the test of the dotted
  name against the patterns as a parameter: a call is looked at only through the
  two-segment dotted name of its callee; a call whose callee has no such name is
  rebuilt from its rewritten children, whatever the test says.
\<close>

fun spec_rewrite :: "(string \<Rightarrow> bool) \<Rightarrow> bool \<Rightarrow> node \<Rightarrow> node" where
  "spec_rewrite test dbg (CallExpression expr args) =
     (case two_segment_name expr of
        Some fullName \<Rightarrow>
          (if test fullName then createVoidZero
           else CallExpression (spec_rewrite test dbg expr) (map (spec_rewrite test dbg) args))
      | None \<Rightarrow> CallExpression (spec_rewrite test dbg expr) (map (spec_rewrite test dbg) args))"
| "spec_rewrite test dbg DebuggerStatement =
     (if dbg then createEmptyStatement else DebuggerStatement)"
| "spec_rewrite test dbg (PropertyAccessExpression e n) =
     PropertyAccessExpression (spec_rewrite test dbg e) (spec_rewrite test dbg n)"
| "spec_rewrite test dbg (VoidExpression e) = VoidExpression (spec_rewrite test dbg e)"
| "spec_rewrite test dbg (SourceFile f stmts) = SourceFile f (map (spec_rewrite test dbg) stmts)"
| "spec_rewrite test dbg (OtherNode k t cs) = OtherNode k t (map (spec_rewrite test dbg) cs)"
| "spec_rewrite test dbg (Identifier t) = Identifier t"
| "spec_rewrite test dbg EmptyStatement = EmptyStatement"
| "spec_rewrite test dbg (NumericLiteral t) = NumericLiteral t"

fun has_debugger :: "node \<Rightarrow> bool" where
  "has_debugger DebuggerStatement = True"
| "has_debugger (CallExpression expr args) = (has_debugger expr \<or> list_ex has_debugger args)"
| "has_debugger (PropertyAccessExpression e n) = (has_debugger e \<or> has_debugger n)"
| "has_debugger (VoidExpression e) = has_debugger e"
| "has_debugger (SourceFile f stmts) = list_ex has_debugger stmts"
| "has_debugger (OtherNode k t cs) = list_ex has_debugger cs"
| "has_debugger _ = False"

section \<open>A reference instance of the collaborators\<close>

text \<open>
  Concrete collaborators, to run the model on concrete inputs. \<open>glob\<close> follows the
  documented matching of \<^verbatim>\<open>minimatch\<close> for patterns made of literal characters,
  \<^verbatim>\<open>?\<close>, \<^verbatim>\<open>*\<close> and \<^verbatim>\<open>**\<close>: pattern and string are split at \<^verbatim>\<open>/\<close> and
  matched part by part, the whole string against the whole pattern; \<^verbatim>\<open>*\<close> stands for
  any run of characters inside one part, \<^verbatim>\<open>**\<close> alone in a part for any number of
  parts, and a part that starts with a dot is matched only by a pattern part that
  starts with a dot. Braces, character classes, extended globs, negation and comments
  are not covered.
\<close>

fun split_on :: "char \<Rightarrow> string \<Rightarrow> string list" where
  "split_on d [] = [[]]"
| "split_on d (c # cs) =
     (if c = d then [] # split_on d cs
      else (case split_on d cs of [] \<Rightarrow> [[c]] | x # xs \<Rightarrow> (c # x) # xs))"

fun match_part :: "string \<Rightarrow> string \<Rightarrow> bool" where
  "match_part [] s = (s = [])"
| "match_part (p # ps) [] = (p = CHR ''*'' \<and> match_part ps [])"
| "match_part (p # ps) (c # cs) =
     (if p = CHR ''*'' then (match_part ps (c # cs) \<or> match_part (p # ps) cs)
      else if p = CHR ''?'' then match_part ps cs
      else (p = c \<and> match_part ps cs))"

definition match_file_part :: "string \<Rightarrow> string \<Rightarrow> bool" where
  "match_file_part p f =
     (if starts_with ''.'' f \<and> \<not> starts_with ''.'' p then False else match_part p f)"

fun match_parts :: "string list \<Rightarrow> string list \<Rightarrow> bool" where
  "match_parts [] fs = (fs = [])"
| "match_parts (p # ps) [] = (p = ''**'' \<and> match_parts ps [])"
| "match_parts (p # ps) (f # fs) =
     (if p = ''**''
      then (match_parts ps (f # fs) \<or> (\<not> starts_with ''.'' f \<and> match_parts (p # ps) fs))
      else (match_file_part p f \<and> match_parts ps fs))"

definition glob :: "string \<Rightarrow> string \<Rightarrow> bool" where
  "glob pattern s =
     (if pattern = [] then s = []
      else match_parts (split_on CHR ''/'' pattern) (split_on CHR ''/'' s))"

text \<open>
  A parser and a printer for a handful of programs. The parser is a table; the printer
  writes a tree out in JavaScript syntax.
\<close>

definition stmt :: "node \<Rightarrow> node" where
  "stmt e = OtherNode ''ExpressionStatement'' [] [e]"

definition dotted_call :: "string \<Rightarrow> string \<Rightarrow> node list \<Rightarrow> node" where
  "dotted_call a b args = CallExpression (PropertyAccessExpression (Identifier a) (Identifier b)) args"

definition ref_statements :: "string \<Rightarrow> node list" where
  "ref_statements text =
     (if text = ''console.log(x); debugger; f(x);'' then
        [stmt (dotted_call ''console'' ''log'' [Identifier ''x'']), DebuggerStatement,
         stmt (CallExpression (Identifier ''f'') [Identifier ''x''])]
      else if text = ''void 0; ; f(x);'' then
        [stmt createVoidZero, EmptyStatement,
         stmt (CallExpression (Identifier ''f'') [Identifier ''x''])]
      else if text = ''assert.ok(x);'' then
        [stmt (dotted_call ''assert'' ''ok'' [Identifier ''x''])]
      else if text = ''console.log(x);'' then
        [stmt (dotted_call ''console'' ''log'' [Identifier ''x''])]
      else if text = ''f(x);'' then
        [stmt (CallExpression (Identifier ''f'') [Identifier ''x''])]
      else [])"

fun join :: "string \<Rightarrow> string list \<Rightarrow> string" where
  "join sep [] = []"
| "join sep [x] = x"
| "join sep (x # y # ys) = x @ sep @ join sep (y # ys)"

definition format_other :: "string \<Rightarrow> string \<Rightarrow> string list \<Rightarrow> string" where
  "format_other k t cs =
     (if k = ''ExpressionStatement'' then join [] cs @ '';''
      else if k = ''Block'' then ''{ '' @ join '' '' cs @ '' }''
      else if k = ''IfStatement'' then
        (case cs of [] \<Rightarrow> ''if'' | c # rest \<Rightarrow> ''if ('' @ c @ '') '' @ join '' else '' rest)
      else if k = ''ReturnStatement'' then ''return '' @ join [] cs @ '';''
      else t @ join '', '' cs)"

fun ref_print :: "node \<Rightarrow> string" where
  "ref_print (Identifier t) = t"
| "ref_print (PropertyAccessExpression e n) = ref_print e @ ''.'' @ ref_print n"
| "ref_print (CallExpression e args) = ref_print e @ ''('' @ join '', '' (map ref_print args) @ '')''"
| "ref_print DebuggerStatement = ''debugger;''"
| "ref_print EmptyStatement = '';''"
| "ref_print (VoidExpression e) = ''void '' @ ref_print e"
| "ref_print (NumericLiteral t) = t"
| "ref_print (SourceFile f stmts) = join '' '' (map ref_print stmts)"
| "ref_print (OtherNode k t cs) = format_other k t (map ref_print cs)"

fun last_part :: "string list \<Rightarrow> string" where
  "last_part [] = []"
| "last_part [x] = x"
| "last_part (x # y # ys) = last_part (y # ys)"

text \<open>
  The file system of the reference instance holds three source files and no
  \<^verbatim>\<open>tsconfig.json\<close>; the default compiler options are those of the TypeScript
  language service (target ES5, which is \<open>1\<close>).
\<close>

definition ref_files :: "string \<Rightarrow> string" where
  "ref_files path =
     (if path = ''src/x.ts'' then ''console.log(x); debugger; f(x);''
      else if path = ''a.ts'' then ''console.log(x);''
      else if path = ''b.ts'' then ''assert.ok(x);''
      else if path = ''src/node_modules/x.ts'' then ''f(x);''
      else [])"

definition ref_ext :: Ext where
  "ref_ext =
     \<lparr>minimatch = (\<lambda>s pattern. glob pattern s),
      makeRe = (\<lambda>pattern. if pattern = [] then None else Some (glob pattern)),
      createSourceFile = (\<lambda>fn text tgt. SourceFile fn (ref_statements text)),
      printNode = ref_print,
      basename = (\<lambda>path. last_part (split_on CHR ''/'' path)),
      readFileSync = (\<lambda>path. Inl (ENOENT path)),
      parseConfigFileTextToJson = (\<lambda>text. Inr (JObject [(''config'', JObject [])])),
      convertCompilerOptionsFromJson = (\<lambda>j. Inr \<lparr>target = None, others = []\<rparr>),
      getDefaultCompilerOptions = \<lparr>target = Some 1, others = [(''jsx'', JNumber 1)]\<rparr>,
      fileText = ref_files,
      defaultTsconfigPath = ''./tsconfig.json''\<rparr>"



text \<open>
  Three statements with callees that are not of the shape \<^verbatim>\<open>identifier.identifier\<close>:
  \<^verbatim>\<open>a.b.c(); a[b](); fn();\<close>.
\<close>

definition other_calls :: node where
  "other_calls =
     SourceFile ''x.ts''
       [stmt (CallExpression
                (PropertyAccessExpression
                   (PropertyAccessExpression (Identifier ''a'') (Identifier ''b''))
                   (Identifier ''c'')) []),
        stmt (CallExpression
                (OtherNode ''ElementAccessExpression'' [] [Identifier ''a'', Identifier ''b'']) []),
        stmt (CallExpression (Identifier ''fn'') [])]"

text \<open>
  The program of the specification's end-to-end example,
  \<^verbatim>\<open>if (x) { console.log("hi"); debugger; return x; }\<close>, and the tree of
  \<^verbatim>\<open>if (x) { void 0; ; return x; }\<close>.
\<close>

definition example_in :: node where
  "example_in =
     SourceFile ''x.ts''
       [OtherNode ''IfStatement'' []
          [Identifier ''x'',
           OtherNode ''Block'' []
             [stmt (dotted_call ''console'' ''log'' [OtherNode ''StringLiteral'' ''hi'' []]),
              DebuggerStatement,
              OtherNode ''ReturnStatement'' [] [Identifier ''x'']]]]"

definition example_out :: node where
  "example_out =
     SourceFile ''x.ts''
       [OtherNode ''IfStatement'' []
          [Identifier ''x'',
           OtherNode ''Block'' []
             [stmt createVoidZero,
              EmptyStatement,
              OtherNode ''ReturnStatement'' [] [Identifier ''x'']]]]"

text \<open>The resolved default configuration, and an empty process state.\<close>

definition default_config :: "(string list) StripConfig" where
  "default_config =
     \<lparr>functions' = [''console.*'', ''assert.*''], stripDebugger = True,
      compilerOptions = \<lparr>target = Some 1, others = [(''jsx'', JNumber 1)]\<rparr>\<rparr>"

definition no_config :: "'f Config" where
  "no_config =
     \<lparr>c_include = None, c_exclude = None, c_debugger = None, c_functions = None,
      c_tsconfigPath = None, c_verbose = None\<rparr>"

definition quiet :: Proc where
  "quiet = \<lparr>verbose = False, trace = []\<rparr>"

definition loud :: Proc where
  "loud = \<lparr>verbose = True, trace = []\<rparr>"

text \<open>
  One build, then one file loaded by the host: whether the parser was called for the
  file (\<open>visited\<close>), and what the load hook returned.
\<close>

definition visited :: "Ext \<Rightarrow> (string list) Config \<Rightarrow> string \<Rightarrow> Proc \<Rightarrow> bool" where
  "visited ext config path w =
     (case Strip ext config w of
        (Inl e, w1) \<Rightarrow> False
      | (Inr plugin, w1) \<Rightarrow> parses w1 < parses (snd (run_onLoad plugin path w1)))"

definition load :: "Ext \<Rightarrow> (string list) Config \<Rightarrow> string \<Rightarrow> Proc \<Rightarrow> exn + OnLoadResult" where
  "load ext config path w =
     (case Strip ext config w of
        (Inl e, w1) \<Rightarrow> Inl e
      | (Inr plugin, w1) \<Rightarrow> Inr (fst (run_onLoad plugin path w1)))"

definition load_alt :: "Ext \<Rightarrow> FilterPattern Config \<Rightarrow> string \<Rightarrow> Proc \<Rightarrow> exn + OnLoadResult" where
  "load_alt ext config path w =
     (case Strip_alt ext config w of
        (Inl e, w1) \<Rightarrow> Inl e
      | (Inr plugin, w1) \<Rightarrow> Inr (fst (run_onLoad plugin path w1)))"

text \<open>
  The tree \<^verbatim>\<open>walk\<close> returns, without the state: a proof device, shown equal to the
  first component of \<open>walk\<close> in \<open>walk_tree\<close> below.
\<close>

fun rewrite :: "(node \<Rightarrow> bool) \<Rightarrow> bool \<Rightarrow> node \<Rightarrow> node" where
  "rewrite strip dbg (CallExpression expr args) =
     (if isPropertyAccessExpression expr \<and> strip expr then createVoidZero
      else CallExpression (rewrite strip dbg expr) (map (rewrite strip dbg) args))"
| "rewrite strip dbg DebuggerStatement = (if dbg then createEmptyStatement else DebuggerStatement)"
| "rewrite strip dbg (Identifier t) = Identifier t"
| "rewrite strip dbg (PropertyAccessExpression e n) =
     PropertyAccessExpression (rewrite strip dbg e) (rewrite strip dbg n)"
| "rewrite strip dbg EmptyStatement = EmptyStatement"
| "rewrite strip dbg (VoidExpression e) = VoidExpression (rewrite strip dbg e)"
| "rewrite strip dbg (NumericLiteral t) = NumericLiteral t"
| "rewrite strip dbg (SourceFile f stmts) = SourceFile f (map (rewrite strip dbg) stmts)"
| "rewrite strip dbg (OtherNode k t cs) = OtherNode k t (map (rewrite strip dbg) cs)"

section \<open>Facts about the matcher and the rewriter\<close>

lemma match_loop_alt_any: "match_loop_alt ext n ps = matchesAny ext n ps"
  by (induction ps) (auto simp: matchesAny_def)

lemma walk_tree_both:
  "fst (walk strip dbg fn t st) = rewrite strip dbg t"
  "fst (visitNodes strip dbg fn ts st) = map (rewrite strip dbg) ts"
  by (induction strip dbg fn t st and strip dbg fn ts st rule: walk_visitNodes.induct)
     (auto split: prod.splits)

lemmas walk_tree = walk_tree_both(1)


lemma shouldStrip_alt_shape:
  "shouldStrip_alt ext config e \<Longrightarrow> \<exists>a b. e = PropertyAccessExpression (Identifier a) (Identifier b)"
  by (induction ext config e rule: shouldStrip_alt.induct) auto

lemma match_loop_imp_any: "match_loop ext n ps \<Longrightarrow> matchesAny ext n ps"
  by (cases ps) (auto simp: matchesAny_def split: if_splits)

lemma shouldStrip_imp_matching:
  "shouldStrip ext config e \<Longrightarrow>
     \<exists>n. two_segment_name e = Some n \<and> matchesAny ext n (functions' config)"
  by (induction ext config e rule: shouldStrip.induct) (auto dest: match_loop_imp_any)




lemma rewrite_id:
  "\<not> has_matching_call ext (functions' config) t \<Longrightarrow> \<not> has_debugger t \<Longrightarrow>
     rewrite (shouldStrip ext config) dbg t = t"
proof (induction t)
  case (CallExpression expr args)
  then show ?case
    by (auto simp: list_ex_iff map_idI dest!: shouldStrip_imp_matching)
qed (auto simp: list_ex_iff map_idI)

lemma makeTransformer_tree:
  "fst (makeTransformer ext config source w) = rewrite (shouldStrip ext config) (stripDebugger config) source"
  using walk_tree [of "shouldStrip ext config" "stripDebugger config" "fileName source" source "(False, w)"]
  by (auto simp: makeTransformer_def split: prod.splits)

lemma stripFunctions_text:
  "fst (stripFunctions ext config path source w) =
     printNode ext (rewrite (shouldStrip ext config) (stripDebugger config)
       (createSourceFile ext (basename ext path) source (target_or_ES2015 (target (compilerOptions config)))))"
  using makeTransformer_tree [of ext config
      "createSourceFile ext (basename ext path) source (target_or_ES2015 (target (compilerOptions config)))"
      "emit (Parse (basename ext path)) w"]
  by (auto simp: stripFunctions_def Let_def split: prod.splits)

lemma debug_verbose [simp]: "verbose (debug msg args w) = verbose w"
  by (simp add: debug_def emit_def)

lemma walk_verbose_both:
  "verbose (snd (snd (walk strip dbg fn t st))) = verbose (snd st)"
  "verbose (snd (snd (visitNodes strip dbg fn ts st))) = verbose (snd st)"
  by (induction strip dbg fn t st and strip dbg fn ts st rule: walk_visitNodes.induct)
     (auto split: prod.splits)

lemma stripFunctions_verbose:
  "verbose (snd (stripFunctions ext config path source w)) = verbose w"
  using walk_verbose_both(1) [of "shouldStrip ext config" "stripDebugger config"
      "fileName (createSourceFile ext (basename ext path) source (target_or_ES2015 (target (compilerOptions config))))"
      "createSourceFile ext (basename ext path) source (target_or_ES2015 (target (compilerOptions config)))"
      "(False, emit (Parse (basename ext path)) w)"]
  by (auto simp: stripFunctions_def makeTransformer_def Let_def emit_def split: prod.splits)

lemma parses_emit_Parse [simp]: "parses (emit (Parse f) w) = Suc (parses w)"
  by (simp add: parses_def emit_def)

lemma parses_emit_other [simp]: "\<not> is_Parse e \<Longrightarrow> parses (emit e w) = parses w"
  by (simp add: parses_def emit_def)

lemma parses_debug [simp]: "parses (debug msg args w) = parses w"
  by (simp add: debug_def)

lemma parses_verbose_update [simp]: "parses (w\<lparr>verbose := v\<rparr>) = parses w"
  by (simp add: parses_def)

lemma walk_parses_both:
  "parses (snd (snd (walk strip dbg fn t st))) = parses (snd st)"
  "parses (snd (snd (visitNodes strip dbg fn ts st))) = parses (snd st)"
  by (induction strip dbg fn t st and strip dbg fn ts st rule: walk_visitNodes.induct)
     (auto split: prod.splits)

lemma stripFunctions_parses:
  "parses (snd (stripFunctions ext config path source w)) = Suc (parses w)"
  using walk_parses_both(1) [of "shouldStrip ext config" "stripDebugger config"
      "fileName (createSourceFile ext (basename ext path) source (target_or_ES2015 (target (compilerOptions config))))"
      "createSourceFile ext (basename ext path) source (target_or_ES2015 (target (compilerOptions config)))"
      "(False, emit (Parse (basename ext path)) w)"]
  by (auto simp: stripFunctions_def makeTransformer_def Let_def split: prod.splits)

lemma getCompilerOptions_returns: "\<exists>opts. getCompilerOptions ext p = Inr opts"
  by (simp add: getCompilerOptions_def split: sum.splits)

text \<open>
  When no step throws, the result is what the conversion returns, whether or not the
  configuration holds \<^verbatim>\<open>compilerOptions\<close>.
\<close>

lemma getCompilerOptions_success:
  "readFileSync ext p = Inr content \<Longrightarrow>
   parseConfigFileTextToJson ext content = Inr result \<Longrightarrow>
   get_property result ''config'' = Inr config \<Longrightarrow>
   get_property config ''compilerOptions'' = Inr opts \<Longrightarrow>
   convertCompilerOptionsFromJson ext opts = Inr options \<Longrightarrow>
   getCompilerOptions ext p = Inr options"
  by (simp add: getCompilerOptions_def getCompilerOptions_try_def)

lemma shouldStrip_first_pattern:
  "shouldStrip ext config (PropertyAccessExpression (Identifier a) (Identifier b)) =
     (case functions' config of [] \<Rightarrow> False | p # ps \<Rightarrow> minimatch ext (a @ ''.'' @ b) p)"
  by (simp split: list.splits)

lemma shouldStrip_alt_any:
  "shouldStrip_alt ext config (PropertyAccessExpression (Identifier a) (Identifier b)) =
     (functions' config \<noteq> PNull \<and> matchesAny ext (a @ ''.'' @ b) (spread (functions' config)))"
  by (simp add: match_loop_alt_any)

text \<open>
  What \<^verbatim>\<open>walk\<close> does to a node it replaces: the whole call becomes \<^verbatim>\<open>void 0\<close>,
  arguments included, and a debugger statement becomes an empty statement.
\<close>

lemma walk_replaces:
  "isPropertyAccessExpression callee \<and> strip callee \<Longrightarrow>
     fst (walk strip dbg fn (CallExpression callee args) st) = createVoidZero"
  "fst (walk strip True fn DebuggerStatement st) = createEmptyStatement"
  "fst (walk strip False fn DebuggerStatement st) = DebuggerStatement"
  by simp_all

lemma makeTransformer_alt_tree:
  "fst (makeTransformer_alt ext config source w) = rewrite (shouldStrip_alt ext config) (stripDebugger config) source"
  using walk_tree [of "shouldStrip_alt ext config" "stripDebugger config" "fileName source" source "(False, w)"]
  by (auto simp: makeTransformer_alt_def split: prod.splits)

lemma stripFunctions_alt_text:
  "fst (stripFunctions_alt ext config path source w) =
     printNode ext (rewrite (shouldStrip_alt ext config) (stripDebugger config)
       (createSourceFile ext (basename ext path) source (target_or_ES2015 (target (compilerOptions config)))))"
  using makeTransformer_alt_tree [of ext config
      "createSourceFile ext (basename ext path) source (target_or_ES2015 (target (compilerOptions config)))"
      "emit (Parse (basename ext path)) w"]
  by (auto simp: stripFunctions_alt_def Let_def split: prod.splits)

lemma callback_alt_result:
  "fst (callback_alt ext exclude config path w) =
     (if list_ex (\<lambda>pattern. minimatch ext path pattern) exclude then Contents (fileText ext path)
      else Contents (fst (stripFunctions_alt ext config path (fileText ext path) (emit (ReadFile path) w))))"
  by (auto simp: callback_alt_def Let_def split: prod.splits)

text \<open>
  The rewriter of \<^verbatim>\<open>index.ts\<close> is the rewriter of the specification with the
  first-pattern test of \<^verbatim>\<open>shouldStrip\<close>, on every tree.
\<close>

lemma rewrite_spec:
  "rewrite (shouldStrip ext config) dbg t =
     spec_rewrite (\<lambda>fullName. match_loop ext fullName (functions' config)) dbg t"
proof (induction t)
  case (CallExpression expr args)
  show ?case
  proof (cases "two_segment_name expr")
    case None
    then have "\<not> shouldStrip ext config expr"
      using shouldStrip_imp_matching [of ext config expr] by auto
    with None CallExpression show ?thesis by simp
  next
    case (Some n)
    then obtain a b where e: "expr = PropertyAccessExpression (Identifier a) (Identifier b)"
      and n: "n = a @ ''.'' @ b"
      by (induction expr rule: two_segment_name.induct) auto
    with CallExpression show ?thesis by simp
  qed
qed simp_all

lemma rewrite_no_two_segment:
  "\<not> has_two_segment_call t \<Longrightarrow>
     rewrite (shouldStrip ext config) dbg t = rewrite (shouldStrip ext config') dbg t"
proof (induction t)
  case (CallExpression expr args)
  then have none: "two_segment_name expr = None" by simp
  have "\<not> shouldStrip ext config expr" "\<not> shouldStrip ext config' expr"
    using none shouldStrip_imp_matching [of ext config expr]
      shouldStrip_imp_matching [of ext config' expr] by auto
  with CallExpression show ?case by (auto simp: list_ex_iff)
qed (auto simp: list_ex_iff)

lemma rewrite_no_two_segment_id:
  "\<not> has_two_segment_call t \<Longrightarrow> rewrite (shouldStrip ext config) False t = t"
proof (induction t)
  case (CallExpression expr args)
  then have none: "two_segment_name expr = None" by simp
  have "\<not> shouldStrip ext config expr"
    using none shouldStrip_imp_matching [of ext config expr] by auto
  with CallExpression show ?case by (auto simp: list_ex_iff map_idI)
qed (auto simp: list_ex_iff map_idI)

section \<open>Facts about the orchestrator\<close>

lemma Strip_result:
  "Strip ext config w =
     (Inr \<lparr>name = ''strip-debug'',
           onLoad_filter = makeRegex ext (nullish (c_include config) PNull) True,
           onLoad_callback =
             (if or_default (c_functions config) [''console.*'', ''assert.*''] = []
                 \<and> \<not> or_default (c_debugger config) True
              then (\<lambda>path w'. (Undefined, w'))
              else callback ext (makeRegex ext (nullish (c_exclude config) (PList [''*node_modules*''])) False)
                     \<lparr>functions' = or_default (c_functions config) [''console.*'', ''assert.*''],
                      stripDebugger = or_default (c_debugger config) True,
                      compilerOptions = projr (getCompilerOptions ext
                         (or_default (c_tsconfigPath config) (defaultTsconfigPath ext)))\<rparr>)\<rparr>,
      snd (Strip ext config w))"
proof -
  obtain opts where "getCompilerOptions ext (or_default (c_tsconfigPath config) (defaultTsconfigPath ext)) = Inr opts"
    using getCompilerOptions_returns by blast
  then show ?thesis
    by (simp add: Strip_def makeFileFilter_def Let_def)
qed

lemma callback_parses:
  "parses (snd (callback ext exclude config path w)) = (if exclude path then parses w else Suc (parses w))"
  using stripFunctions_parses [of ext config path "fileText ext path" "emit (ReadFile path) w"]
  by (auto simp: callback_def Let_def split: prod.splits)

lemma visited_char:
  "visited ext config path w \<longleftrightarrow>
     ((or_default (c_functions config) [''console.*'', ''assert.*''] \<noteq> []
        \<or> or_default (c_debugger config) True)
      \<and> makeRegex ext (nullish (c_include config) PNull) True path
      \<and> \<not> makeRegex ext (nullish (c_exclude config) (PList [''*node_modules*''])) False path)"
  unfolding visited_def
  by (subst Strip_result) (auto simp: run_onLoad_def callback_parses)

section \<open>Evaluation on the reference instance\<close>

lemmas ref_eval = ref_ext_def glob_def match_file_part_def default_config_def
  quiet_def loud_def no_config_def

lemmas ref_programs = ref_statements_def stmt_def dotted_call_def format_other_def
  createVoidZero_def createEmptyStatement_def

text \<open>
  The end-to-end example of the specification (section 8), under the default
  configuration: the call and the debugger statement are replaced, the rest of the tree
  is kept, and the result prints as \<^verbatim>\<open>if (x) { void 0; ; return x; }\<close>.
\<close>

lemma example_end_to_end:
  "fst (makeTransformer ref_ext default_config example_in quiet) = example_out
   \<and> printNode ref_ext example_out = ''if (x) { void 0; ; return x; }''"
  by (simp add: makeTransformer_tree example_in_def example_out_def ref_eval ref_programs)

lemma ref_getCompilerOptions:
  "getCompilerOptions ref_ext ''./tsconfig.json'' =
     Inr \<lparr>target = Some 1, others = [(''jsx'', JNumber 1)]\<rparr>"
  by (simp add: getCompilerOptions_def getCompilerOptions_try_def ref_ext_def)


section \<open>The claims\<close>

text \<open>
  Claim C1: for every candidate dotted name and every list of function patterns, the
  matcher used by \<^verbatim>\<open>shouldStrip\<close> is true iff the candidate matches at least one
  pattern of the list. In \<^verbatim>\<open>index.ts\<close> the loop breaks after the first pattern:
  with the patterns \<^verbatim>\<open>["assert.*", "console.*"]\<close> the name \<^verbatim>\<open>console.log\<close>
  matches the second pattern and \<^verbatim>\<open>shouldStrip\<close> is false. \<^verbatim>\<open>shouldStrip\<close> of
  \<^verbatim>\<open>part_000\<close> is true on the same input.
\<close>

theorem shouldStrip_checks_first_pattern_only:
  "matchesAny ref_ext ''console.log'' [''assert.*'', ''console.*'']
   \<and> \<not> shouldStrip ref_ext
         \<lparr>functions' = [''assert.*'', ''console.*''], stripDebugger = True,
          compilerOptions = \<lparr>target = None, others = []\<rparr>\<rparr>
         (PropertyAccessExpression (Identifier ''console'') (Identifier ''log''))
   \<and> shouldStrip_alt ref_ext
         \<lparr>functions' = PList [''assert.*'', ''console.*''], stripDebugger = True,
          compilerOptions = \<lparr>target = None, others = []\<rparr>\<rparr>
         (PropertyAccessExpression (Identifier ''console'') (Identifier ''log''))"
  by (simp add: matchesAny_def ref_eval)

text \<open>
  Claim C2: a file is visited iff it matches the include pattern set and does not match
  the exclude pattern set; under the default patterns \<^verbatim>\<open>src/node_modules/x.ts\<close> is
  excluded and \<^verbatim>\<open>src/x.ts\<close> is included and visited. In \<^verbatim>\<open>index.ts\<close> the default
  include is the glob \<^verbatim>\<open>*\<close> (the default of the parameter \<^verbatim>\<open>nullMatchesAll\<close>),
  whose regular expression tests false on \<^verbatim>\<open>src/x.ts\<close>: the file is not visited and
  the host gets no contents from the plugin. The default exclude \<^verbatim>\<open>*node_modules*\<close>
  tests false on \<^verbatim>\<open>src/node_modules/x.ts\<close>: once the include pattern \<^verbatim>\<open>**\<close> lets
  the file through, it is visited. Under the defaults of \<^verbatim>\<open>part_000\<close>, whose
  include is \<^verbatim>\<open>**\<close>, the file \<^verbatim>\<open>src/x.ts\<close> is visited and transformed.
\<close>

theorem default_patterns_miss_nested_paths:
  "\<not> makeRegex ref_ext PNull True ''src/x.ts''
   \<and> \<not> visited ref_ext no_config ''src/x.ts'' quiet
   \<and> load ref_ext no_config ''src/x.ts'' quiet = Inr Undefined
   \<and> \<not> makeRegex ref_ext (PList [''*node_modules*'']) False ''src/node_modules/x.ts''
   \<and> visited ref_ext (no_config\<lparr>c_include := Some (PString ''**'')\<rparr>) ''src/node_modules/x.ts'' quiet
   \<and> load_alt ref_ext no_config ''src/x.ts'' quiet = Inr (Contents ''void 0; ; f(x);'')"
proof -
  have d: "defaultTsconfigPath ref_ext = ''./tsconfig.json''"
    by (simp add: ref_ext_def)
  have i: "\<not> makeRegex ref_ext PNull True ''src/x.ts''"
    by (simp add: makeRegex_def join_alternatives_def source_test_def ref_eval)
  have v: "\<not> visited ref_ext no_config ''src/x.ts'' quiet"
    by (simp add: visited_char makeRegex_def join_alternatives_def source_test_def ref_eval)
  have l: "load ref_ext no_config ''src/x.ts'' quiet = Inr Undefined"
    unfolding load_def
    by (subst Strip_result)
       (simp add: run_onLoad_def makeRegex_def join_alternatives_def source_test_def ref_eval)
  have e: "\<not> makeRegex ref_ext (PList [''*node_modules*'']) False ''src/node_modules/x.ts''"
    by (simp add: makeRegex_def join_alternatives_def source_test_def ref_eval)
  have n: "visited ref_ext (no_config\<lparr>c_include := Some (PString ''**'')\<rparr>) ''src/node_modules/x.ts'' quiet"
    by (simp add: visited_char makeRegex_def join_alternatives_def source_test_def ref_eval)
  have a: "load_alt ref_ext no_config ''src/x.ts'' quiet = Inr (Contents ''void 0; ; f(x);'')"
    by (simp add: load_alt_def Strip_alt_def ref_getCompilerOptions d no_config_def Let_def
        run_onLoad_def callback_alt_result stripFunctions_alt_text join_alternatives_def
        source_test_alt_def)
       (simp add: ref_eval ref_files_def ref_programs)
  from i v l e n a show ?thesis by simp
qed

text \<open>
  Claim C3: for every input tree and every configuration, a call expression is stripped
  only when its callee has the exact shape \<^verbatim>\<open>identifier.identifier\<close>; a call with
  any other callee is never stripped, whatever the patterns. For every tree the
  transformer returns what the rewriter of the specification returns, which looks at a
  call only through the two-segment dotted name of its callee. Hence on a tree without
  such a callee the result is the same under every pattern list, and the tree itself
  when debugger stripping is off.
\<close>

theorem calls_stripped_only_by_two_segment_name:
  "fst (makeTransformer ext config tree w)
     = spec_rewrite (\<lambda>fullName. match_loop ext fullName (functions' config))
         (stripDebugger config) tree
   \<and> (\<not> has_two_segment_call tree
      \<longrightarrow> fst (makeTransformer ext config tree w)
          = fst (makeTransformer ext (config\<lparr>functions' := ps\<rparr>) tree w'))
   \<and> (\<not> has_two_segment_call tree \<and> \<not> stripDebugger config
      \<longrightarrow> fst (makeTransformer ext config tree w) = tree)"
  using rewrite_no_two_segment [of tree ext config "stripDebugger config" "config\<lparr>functions' := ps\<rparr>"]
    rewrite_no_two_segment_id [of tree ext config]
  by (auto simp: makeTransformer_tree rewrite_spec)

text \<open>
  The source file \<^verbatim>\<open>a.b.c(); a[b](); fn();\<close> under the pattern \<^verbatim>\<open>*\<close>, which
  matches every two-segment name such as \<^verbatim>\<open>a.b\<close>: no call is stripped.
\<close>

theorem calls_stripped_only_by_two_segment_name_witness:
  "\<not> has_two_segment_call other_calls
   \<and> \<not> stripDebugger
         \<lparr>functions' = [''*''], stripDebugger = False,
          compilerOptions = \<lparr>target = None, others = []\<rparr>\<rparr>
   \<and> minimatch ref_ext ''a.b'' ''*''
   \<and> fst (makeTransformer ref_ext
            \<lparr>functions' = [''*''], stripDebugger = False,
             compilerOptions = \<lparr>target = None, others = []\<rparr>\<rparr>
            other_calls quiet) = other_calls"
proof -
  let ?c = "\<lparr>functions' = [''*''], stripDebugger = False,
             compilerOptions = \<lparr>target = None, others = []\<rparr>\<rparr>"
  have a: "\<not> has_two_segment_call other_calls"
    by (simp add: other_calls_def stmt_def)
  have b: "\<not> stripDebugger ?c"
    by simp
  have m: "minimatch ref_ext ''a.b'' ''*''"
    by (simp add: ref_eval)
  from calls_stripped_only_by_two_segment_name [of ref_ext ?c other_calls quiet] a b
  have "fst (makeTransformer ref_ext ?c other_calls quiet) = other_calls"
    by blast
  with a b m show ?thesis by simp
qed

text \<open>
  Claim C4: every call whose two-segment dotted callee matches the configured function
  patterns is replaced by \<^verbatim>\<open>void 0\<close>, and every debugger statement by an empty
  statement when \<^verbatim>\<open>stripDebugger\<close> is true. In \<^verbatim>\<open>index.ts\<close>, under the default
  patterns \<^verbatim>\<open>["console.*", "assert.*"]\<close>, the call \<^verbatim>\<open>assert.ok(x)\<close> matches the
  second pattern and is left in place, in the tree and in the printed text; the
  transformer of \<^verbatim>\<open>part_000\<close> replaces it.
\<close>

theorem second_pattern_call_not_replaced:
  "matchesAny ref_ext ''assert.ok'' (functions' default_config)
   \<and> two_segment_name (PropertyAccessExpression (Identifier ''assert'') (Identifier ''ok''))
       = Some ''assert.ok''
   \<and> fst (walk (shouldStrip ref_ext default_config) (stripDebugger default_config) ''b.ts''
            (dotted_call ''assert'' ''ok'' [Identifier ''x'']) (False, quiet))
       = dotted_call ''assert'' ''ok'' [Identifier ''x'']
   \<and> fst (stripFunctions ref_ext default_config ''b.ts'' ''assert.ok(x);'' quiet) = ''assert.ok(x);''
   \<and> fst (stripFunctions_alt ref_ext
            \<lparr>functions' = PList [''console.*'', ''assert.*''], stripDebugger = True,
             compilerOptions = \<lparr>target = Some 1, others = []\<rparr>\<rparr>
            ''b.ts'' ''assert.ok(x);'' quiet) = ''void 0;''"
  by (simp add: matchesAny_def ref_eval ref_programs stripFunctions_text stripFunctions_alt_text)

text \<open>
  Claim C5: when the user sets \<^verbatim>\<open>functions\<close> to \<^verbatim>\<open>null\<close>, no call is stripped.
  In \<^verbatim>\<open>part_000\<close>, \<^verbatim>\<open>config.functions ?? ["console.*", "assert.*"]\<close> replaces the
  \<^verbatim>\<open>null\<close> by the default patterns before \<^verbatim>\<open>shouldStrip\<close> sees it: the file
  \<^verbatim>\<open>a.ts\<close>, whose text is \<^verbatim>\<open>console.log(x);\<close>, is loaded as \<^verbatim>\<open>void 0;\<close>.
  \<^verbatim>\<open>shouldStrip\<close> itself is false on a \<^verbatim>\<open>null\<close> list.
\<close>

theorem null_functions_still_stripped:
  "ref_files ''a.ts'' = ''console.log(x);''
   \<and> load_alt ref_ext (no_config\<lparr>c_functions := Some PNull\<rparr>) ''a.ts'' quiet
       = Inr (Contents ''void 0;'')
   \<and> \<not> shouldStrip_alt ref_ext
         \<lparr>functions' = PNull, stripDebugger = True,
          compilerOptions = \<lparr>target = None, others = []\<rparr>\<rparr>
         (PropertyAccessExpression (Identifier ''console'') (Identifier ''log''))"
proof -
  have d: "defaultTsconfigPath ref_ext = ''./tsconfig.json''"
    by (simp add: ref_ext_def)
  have "load_alt ref_ext (no_config\<lparr>c_functions := Some PNull\<rparr>) ''a.ts'' quiet
       = Inr (Contents ''void 0;'')"
    by (simp add: load_alt_def Strip_alt_def ref_getCompilerOptions d no_config_def Let_def
        run_onLoad_def callback_alt_result stripFunctions_alt_text join_alternatives_def
        source_test_alt_def)
       (simp add: ref_eval ref_files_def ref_programs)
  then show ?thesis
    by (simp add: ref_files_def)
qed

text \<open>
  Claim C6: when the resolved configuration has an empty function list and debugger
  stripping is off, the load hook returns the no-change signal (\<^verbatim>\<open>undefined\<close>) for
  every file and leaves the process state as it was: no file is read, nothing is
  parsed, nothing is logged.
\<close>

theorem nothing_to_strip_pass_through:
  assumes "or_default (c_functions config) [''console.*'', ''assert.*''] = []"
    and "or_default (c_debugger config) True = False"
  shows "\<exists>plugin w1. Strip ext config w = (Inr plugin, w1)
           \<and> (\<forall>path w'. onLoad_callback plugin path w' = (Undefined, w'))"
  using assms by (subst Strip_result) simp

theorem nothing_to_strip_pass_through_witness:
  "or_default (c_functions (no_config\<lparr>c_functions := Some [], c_debugger := Some False\<rparr>))
       [''console.*'', ''assert.*''] = []
   \<and> or_default (c_debugger (no_config\<lparr>c_functions := Some ([] :: string list), c_debugger := Some False\<rparr>)) True = False
   \<and> load ref_ext (no_config\<lparr>c_functions := Some [], c_debugger := Some False\<rparr>) ''a.ts'' quiet
       = Inr Undefined"
proof -
  let ?c = "no_config\<lparr>c_functions := Some ([] :: string list), c_debugger := Some False\<rparr>"
  have a: "or_default (c_functions ?c) [''console.*'', ''assert.*''] = []"
    by (simp add: no_config_def)
  have b: "or_default (c_debugger ?c) True = False"
    by (simp add: no_config_def)
  from nothing_to_strip_pass_through [OF a b, of ref_ext quiet]
  have "load ref_ext ?c ''a.ts'' quiet = Inr Undefined"
    by (auto simp: load_def run_onLoad_def)
  with a b show ?thesis by simp
qed

text \<open>
  Claim C7: when the parsed source contains no call whose two-segment dotted callee
  matches one of the configured patterns and no debugger statement, the transformer
  returns the tree unchanged, and the output text is the printer's rendering of the
  parsed source.
\<close>

theorem rewrite_identity_without_matches:
  assumes "\<not> has_matching_call ext (functions' config)
              (createSourceFile ext (basename ext path) source
                 (target_or_ES2015 (target (compilerOptions config))))"
    and "\<not> has_debugger
              (createSourceFile ext (basename ext path) source
                 (target_or_ES2015 (target (compilerOptions config))))"
  shows "fst (makeTransformer ext config
                (createSourceFile ext (basename ext path) source
                   (target_or_ES2015 (target (compilerOptions config)))) w')
           = createSourceFile ext (basename ext path) source
               (target_or_ES2015 (target (compilerOptions config)))
         \<and> fst (stripFunctions ext config path source w) =
           printNode ext (createSourceFile ext (basename ext path) source
                            (target_or_ES2015 (target (compilerOptions config))))"
  using assms by (simp add: stripFunctions_text makeTransformer_tree rewrite_id)

theorem rewrite_identity_without_matches_witness:
  "\<not> has_matching_call ref_ext (functions' default_config)
        (createSourceFile ref_ext (basename ref_ext ''src/node_modules/x.ts'') ''f(x);''
           (target_or_ES2015 (target (compilerOptions default_config))))
   \<and> \<not> has_debugger
        (createSourceFile ref_ext (basename ref_ext ''src/node_modules/x.ts'') ''f(x);''
           (target_or_ES2015 (target (compilerOptions default_config))))
   \<and> fst (stripFunctions ref_ext default_config ''src/node_modules/x.ts'' ''f(x);'' quiet) = ''f(x);''"
proof -
  have a: "\<not> has_matching_call ref_ext (functions' default_config)
        (createSourceFile ref_ext (basename ref_ext ''src/node_modules/x.ts'') ''f(x);''
           (target_or_ES2015 (target (compilerOptions default_config))))"
    by (simp add: ref_eval ref_programs)
  have b: "\<not> has_debugger
        (createSourceFile ref_ext (basename ref_ext ''src/node_modules/x.ts'') ''f(x);''
           (target_or_ES2015 (target (compilerOptions default_config))))"
    by (simp add: ref_eval ref_programs)
  have "printNode ref_ext (createSourceFile ref_ext (basename ref_ext ''src/node_modules/x.ts'') ''f(x);''
           (target_or_ES2015 (target (compilerOptions default_config)))) = ''f(x);''"
    by (simp add: ref_eval ref_programs)
  with a b rewrite_identity_without_matches [OF a b, of quiet quiet] show ?thesis by simp
qed






text \<open>
  Claim C10: the text \<^verbatim>\<open>stripFunctions\<close> returns depends on the configuration, the
  path and the source text only: it is the same from any two process states, whatever
  \<^verbatim>\<open>verbose\<close> is and whatever was logged before, and a run leaves \<^verbatim>\<open>verbose\<close> as
  it found it.
\<close>

theorem stripFunctions_ignores_verbose:
  "fst (stripFunctions ext config path source w) = fst (stripFunctions ext config path source w')
   \<and> verbose (snd (stripFunctions ext config path source w)) = verbose w"
  by (simp add: stripFunctions_text stripFunctions_verbose)

text \<open>
  With \<^verbatim>\<open>verbose\<close> on and off the same text comes out, though the traces differ.
\<close>

theorem stripFunctions_ignores_verbose_witness:
  "fst (stripFunctions ref_ext default_config ''src/x.ts'' ''console.log(x); debugger; f(x);'' loud)
     = fst (stripFunctions ref_ext default_config ''src/x.ts'' ''console.log(x); debugger; f(x);'' quiet)
   \<and> trace (snd (stripFunctions ref_ext default_config ''src/x.ts'' ''console.log(x); debugger; f(x);'' loud))
     \<noteq> trace (snd (stripFunctions ref_ext default_config ''src/x.ts'' ''console.log(x); debugger; f(x);'' quiet))"
  using stripFunctions_ignores_verbose [of ref_ext default_config "''src/x.ts''"
      "''console.log(x); debugger; f(x);''" loud quiet]
  by (simp add: stripFunctions_def makeTransformer_def ref_eval ref_programs debug_def emit_def Let_def)

end
